theory Spec2Isabelle
  imports Complex_Main
begin

section \<open>Strings\<close>

text \<open>
  A Python \<open>str\<close> is a sequence of Unicode code points. The plugin's patterns contain the
  CJK unit words, so strings are lists of code points (natural numbers) and not byte
  strings. \<open>str\<close> embeds an ASCII literal.
\<close>

type_synonym codepoint = nat
type_synonym pystr = "codepoint list"

definition str :: "string \<Rightarrow> pystr" where
  "str s = map of_char s"

text \<open>
  The interpreter's character database decides what \<open>str.lower\<close>, \<open>str.strip\<close>, \<open>\d\<close> and
  \<open>\s\<close> do outside ASCII. It is not part of the repository, so it is a parameter:
  \<open>decimal\<close> gives the value of a decimal digit (category Nd), \<open>whitespace\<close> is
  \<open>str.isspace\<close> on one character, \<open>lower\<close> is \<open>str.lower\<close> on a string that is not pure
  ASCII. On ASCII the interpreter uses fixed tables, which are written out below.
\<close>

record unicode =
  decimal :: "codepoint \<Rightarrow> nat option"
  whitespace :: "codepoint \<Rightarrow> bool"
  lower :: "pystr \<Rightarrow> pystr"

definition ascii_decimal :: "codepoint \<Rightarrow> nat option" where
  "ascii_decimal c = (if 48 \<le> c \<and> c \<le> 57 then Some (c - 48) else None)"

definition ascii_whitespace :: "codepoint \<Rightarrow> bool" where
  "ascii_whitespace c = ((9 \<le> c \<and> c \<le> 13) \<or> (28 \<le> c \<and> c \<le> 32))"

definition ascii_lower :: "codepoint \<Rightarrow> codepoint" where
  "ascii_lower c = (if 65 \<le> c \<and> c \<le> 90 then c + 32 else c)"

definition py_decimal :: "unicode \<Rightarrow> codepoint \<Rightarrow> nat option" where
  "py_decimal U c = (if c < 128 then ascii_decimal c else decimal U c)"

definition py_isspace :: "unicode \<Rightarrow> codepoint \<Rightarrow> bool" where
  "py_isspace U c = (if c < 128 then ascii_whitespace c else whitespace U c)"

definition py_isdigit :: "unicode \<Rightarrow> codepoint \<Rightarrow> bool" where
  "py_isdigit U c = (py_decimal U c \<noteq> None)"

definition is_ascii :: "pystr \<Rightarrow> bool" where
  "is_ascii s = list_all (\<lambda>c. c < 128) s"

definition py_lower :: "unicode \<Rightarrow> pystr \<Rightarrow> pystr" where
  "py_lower U s = (if is_ascii s then map ascii_lower s else lower U s)"

definition py_strip :: "unicode \<Rightarrow> pystr \<Rightarrow> pystr" where
  "py_strip U s = rev (dropWhile (py_isspace U) (rev (dropWhile (py_isspace U) s)))"

definition startswith :: "pystr \<Rightarrow> pystr \<Rightarrow> bool" where
  "startswith s p = (take (length p) s = p)"

text \<open>
  \<open>int(s)\<close> on a string of decimal digits. The pattern's group holds digits only, so
  the conversion cannot fail on it; the interpreter's optional limit on the number of
  digits is not modelled.
\<close>

definition digit_value :: "unicode \<Rightarrow> codepoint \<Rightarrow> int" where
  "digit_value U c = (case py_decimal U c of Some d \<Rightarrow> int d | None \<Rightarrow> 0)"

definition py_int :: "unicode \<Rightarrow> pystr \<Rightarrow> int" where
  "py_int U ds = foldl (\<lambda>a c. 10 * a + digit_value U c) 0 ds"

text \<open>
  The database restricted to ASCII: no digit, space or cased letter beyond code point
  127. It serves as a concrete instance for evaluation.
\<close>

definition ascii_only :: unicode where
  "ascii_only = \<lparr> decimal = (\<lambda>c. None), whitespace = (\<lambda>c. False), lower = (\<lambda>s. map ascii_lower s) \<rparr>"

section \<open>Duration parsing\<close>

text \<open>
  \<open>MuteMaiCommand._parse_duration\<close> (linglingbizui/plugin.py) searches the lowered string
  with three patterns of one shape, \<open>(\d+)\s*(?:u1|u2|...)\<close>. The functions below are the
  backtracking matcher for that shape: \<open>\d+\<close> and \<open>\s*\<close> are greedy and give characters
  back when the rest fails, the alternatives are tried in the order written, and the
  search takes the leftmost start position that matches. The result is group 1.
\<close>

definition alt_units :: "pystr list \<Rightarrow> pystr \<Rightarrow> bool" where
  "alt_units us r = list_ex (startswith r) us"

fun spaces_then :: "unicode \<Rightarrow> pystr list \<Rightarrow> pystr \<Rightarrow> bool" where
  "spaces_then U us [] = alt_units us []"
| "spaces_then U us (c # cs) =
     (if py_isspace U c \<and> spaces_then U us cs then True else alt_units us (c # cs))"

fun digits_then :: "unicode \<Rightarrow> pystr list \<Rightarrow> pystr \<Rightarrow> pystr \<Rightarrow> pystr option" where
  "digits_then U us acc [] = (if spaces_then U us [] then Some acc else None)"
| "digits_then U us acc (c # cs) =
     (case (if py_isdigit U c then digits_then U us (acc @ [c]) cs else None) of
        Some g \<Rightarrow> Some g
      | None \<Rightarrow> if spaces_then U us (c # cs) then Some acc else None)"

definition match_at :: "unicode \<Rightarrow> pystr list \<Rightarrow> pystr \<Rightarrow> pystr option" where
  "match_at U us s =
     (case s of
        [] \<Rightarrow> None
      | c # cs \<Rightarrow> if py_isdigit U c then digits_then U us [c] cs else None)"

fun re_search :: "unicode \<Rightarrow> pystr list \<Rightarrow> pystr \<Rightarrow> pystr option" where
  "re_search U us [] = match_at U us []"
| "re_search U us (c # cs) =
     (case match_at U us (c # cs) of
        Some g \<Rightarrow> Some g
      | None \<Rightarrow> re_search U us cs)"

text \<open>The unit words: U+5206 U+949F (minute), U+5C0F U+65F6 (hour), U+5929 (day).\<close>

definition minute_units :: "pystr list" where
  "minute_units = [[0x5206, 0x949F], str ''min'', str ''m'']"

definition hour_units :: "pystr list" where
  "hour_units = [[0x5C0F, 0x65F6], str ''h'']"

definition day_units :: "pystr list" where
  "day_units = [[0x5929]]"

definition parse_duration :: "unicode \<Rightarrow> pystr \<Rightarrow> int option" where
  "parse_duration U duration_str =
     (let s = py_lower U duration_str in
      case re_search U minute_units s of
        Some g \<Rightarrow> Some (py_int U g)
      | None \<Rightarrow>
         (case re_search U hour_units s of
            Some g \<Rightarrow> Some (py_int U g * 60)
          | None \<Rightarrow>
             (case re_search U day_units s of
                Some g \<Rightarrow> Some (py_int U g * 24 * 60)
              | None \<Rightarrow> None)))"

section \<open>Time, configuration and the host\<close>

text \<open>
  Time stamps are seconds since the epoch. \<open>time.time()\<close> and \<open>datetime.timestamp()\<close>
  return floats; every float is a rational and the order on floats is the order on
  rationals, so a time stamp is a rational number. The host clock is taken to run in
  UTC, so the wall clock of \<open>datetime.now()\<close> and \<open>time.time()\<close> are one time line
  (no daylight-saving jump between a mute and its expiry). One invocation of a command
  or handler reads the clock at one instant \<open>now\<close>.
\<close>

type_synonym time = rat
type_synonym stream_id = pystr

datatype error = OverflowError | HostException

text \<open>
  \<open>timedelta(minutes=d)\<close> raises OverflowError when the number of days is beyond
  999999999 in magnitude; \<open>datetime + timedelta\<close> raises it when the result leaves the
  years 1 to 9999. \<open>datetime_min\<close> is 0001-01-01T00:00:00 and \<open>datetime_end\<close> is
  10000-01-01T00:00:00, both in seconds since the epoch.
\<close>

definition max_delta_days :: int where
  "max_delta_days = 999999999"

definition datetime_min :: time where
  "datetime_min = - 62135596800"

definition datetime_end :: time where
  "datetime_end = 253402300800"

definition timedelta_minutes :: "int \<Rightarrow> error + time" where
  "timedelta_minutes d =
     (if - max_delta_days \<le> d div 1440 \<and> d div 1440 \<le> max_delta_days
      then Inr (60 * of_int d) else Inl OverflowError)"

definition datetime_add :: "time \<Rightarrow> time \<Rightarrow> error + time" where
  "datetime_add t delta =
     (if datetime_min \<le> t + delta \<and> t + delta < datetime_end
      then Inr (t + delta) else Inl OverflowError)"

definition unmute_time_after :: "time \<Rightarrow> int \<Rightarrow> error + time" where
  "unmute_time_after now duration_minutes =
     (case timedelta_minutes duration_minutes of
        Inl e \<Rightarrow> Inl e
      | Inr delta \<Rightarrow> datetime_add now delta)"

text \<open>
  The plugin configuration as \<open>get_config(key, default)\<close> reads it, the defaults of the
  schema applied. Message templates are configuration too; the model records which
  message is sent (\<open>notice\<close>), not its rendered text.
\<close>

record config =
  cfg_plugin_enabled :: bool
  cfg_mute_enabled :: bool
  cfg_at_unmute_enabled :: bool
  cfg_default_mute_minutes :: int
  cfg_mute_aliases :: "pystr list"
  cfg_unmute_aliases :: "pystr list"

text \<open>The default aliases: U+7EEB U+7EEB U+95ED U+5634 and U+7EEB U+7EEB U+5F20 U+5634.\<close>

definition default_mute_aliases :: "pystr list" where
  "default_mute_aliases = [[0x7EEB, 0x7EEB, 0x95ED, 0x5634]]"

definition default_unmute_aliases :: "pystr list" where
  "default_unmute_aliases = [[0x7EEB, 0x7EEB, 0x5F20, 0x5634]]"

definition default_config :: config where
  "default_config =
     \<lparr> cfg_plugin_enabled = True, cfg_mute_enabled = True, cfg_at_unmute_enabled = True,
       cfg_default_mute_minutes = 10, cfg_mute_aliases = default_mute_aliases,
       cfg_unmute_aliases = default_unmute_aliases \<rparr>"

datatype notice =
    PluginDisabled
  | MuteDisabled
  | CannotParseDuration
  | MuteStart time
  | UnmuteStart
  | NotMutedNow
  | AtUnmute

text \<open>
  The host's reply generation, as the plugin meets it after an unmute: a call raises,
  the chat manager knows no stream object (chatter only), there is no replyer, or
  \<open>generate_reply\<close> returns its success flag. \<open>trigger_event\<close> is the line the plugin
  prints about it.
\<close>

datatype reply_env = HostRaises | NoStreamObject | NoReplyer | Generated bool

datatype trigger_event =
    ThinkingAttempted
  | ThinkingFailed
  | ReplyerMissing
  | StreamObjectMissing
  | TriggerError

record host =
  bot_account :: "pystr option"
  reply_generation :: reply_env

text \<open>
  The state the plugin acts on: the value stored under the key \<open>muted_streams\<close> (absent
  until first written), the configuration cached under \<open>chatter_config\<close>, the messages
  sent to streams, and the outcomes of the reply triggers.
\<close>

record world =
  muted_streams :: "(stream_id \<rightharpoonup> time) option"
  chatter_config :: "config option"
  outbox :: "(stream_id \<times> notice) list"
  thinking :: "trigger_event list"

definition get_muted :: "world \<Rightarrow> (stream_id \<rightharpoonup> time)" where
  "get_muted w = (case muted_streams w of None \<Rightarrow> Map.empty | Some m \<Rightarrow> m)"

definition set_muted :: "world \<Rightarrow> (stream_id \<rightharpoonup> time) \<Rightarrow> world" where
  "set_muted w m = w\<lparr>muted_streams := Some m\<rparr>"

definition send_text :: "world \<Rightarrow> stream_id \<Rightarrow> notice \<Rightarrow> world" where
  "send_text w sid n = w\<lparr>outbox := outbox w @ [(sid, n)]\<rparr>"

definition trigger_body :: "reply_env \<Rightarrow> error + trigger_event" where
  "trigger_body env =
     (case env of
        HostRaises \<Rightarrow> Inl HostException
      | NoStreamObject \<Rightarrow> Inr StreamObjectMissing
      | NoReplyer \<Rightarrow> Inr ReplyerMissing
      | Generated success \<Rightarrow> Inr (if success then ThinkingAttempted else ThinkingFailed))"

definition trigger_thinking :: "reply_env \<Rightarrow> world \<Rightarrow> world" where
  "trigger_thinking env w =
     (case trigger_body env of
        Inl e \<Rightarrow> w\<lparr>thinking := thinking w @ [TriggerError]\<rparr>
      | Inr ev \<Rightarrow> w\<lparr>thinking := thinking w @ [ev]\<rparr>)"

section \<open>The handler-based plugin (linglingbizui/plugin.py)\<close>

text \<open>
  A command returns \<open>{"success": ..., "message": ...}\<close>: a flag and which message it is.
\<close>

datatype outcome =
    NoChatStreamInfo
  | PluginIsDisabled
  | MuteIsDisabled
  | DurationUnparsed
  | MutedUntil stream_id int time
  | WasNotMuted stream_id
  | UnmutedNow stream_id

type_synonym command_result = "bool \<times> outcome"

text \<open>
  Lines 61 to 70 of \<open>MuteMaiCommand.execute\<close>: the duration comes from the arguments when
  there are any (\<open>None\<close> when they do not parse) and from the configuration otherwise.
  The argument object is given by its raw string.
\<close>

definition requested_duration :: "unicode \<Rightarrow> config \<Rightarrow> pystr option \<Rightarrow> int option" where
  "requested_duration U cfg args =
     (case args of
        None \<Rightarrow> Some (cfg_default_mute_minutes cfg)
      | Some raw \<Rightarrow>
          if py_strip U raw \<noteq> [] then parse_duration U (py_strip U raw)
          else Some (cfg_default_mute_minutes cfg))"

definition ll_MuteMaiCommand_execute ::
  "unicode \<Rightarrow> config \<Rightarrow> time \<Rightarrow> stream_id option \<Rightarrow> pystr option \<Rightarrow> world
     \<Rightarrow> error + (command_result \<times> world)" where
  "ll_MuteMaiCommand_execute U cfg now chat_stream args w =
     (case chat_stream of
        None \<Rightarrow> Inr ((False, NoChatStreamInfo), w)
      | Some sid \<Rightarrow>
          if \<not> cfg_plugin_enabled cfg
          then Inr ((False, PluginIsDisabled), send_text w sid PluginDisabled)
          else if \<not> cfg_mute_enabled cfg
          then Inr ((False, MuteIsDisabled), send_text w sid MuteDisabled)
          else
            (case requested_duration U cfg args of
               None \<Rightarrow> Inr ((False, DurationUnparsed), send_text w sid CannotParseDuration)
             | Some duration_minutes \<Rightarrow>
                 (case unmute_time_after now duration_minutes of
                    Inl e \<Rightarrow> Inl e
                  | Inr unmute_time \<Rightarrow>
                      Inr ((True, MutedUntil sid duration_minutes unmute_time),
                           send_text (set_muted w ((get_muted w)(sid \<mapsto> unmute_time)))
                             sid (MuteStart unmute_time)))))"

definition ll_UnmuteMaiCommand_execute ::
  "config \<Rightarrow> reply_env \<Rightarrow> stream_id option \<Rightarrow> world \<Rightarrow> command_result \<times> world" where
  "ll_UnmuteMaiCommand_execute cfg env chat_stream w =
     (case chat_stream of
        None \<Rightarrow> ((False, NoChatStreamInfo), w)
      | Some sid \<Rightarrow>
          if \<not> cfg_plugin_enabled cfg
          then ((False, PluginIsDisabled), send_text w sid PluginDisabled)
          else if \<not> cfg_mute_enabled cfg
          then ((False, MuteIsDisabled), send_text w sid MuteDisabled)
          else if sid \<in> dom (get_muted w)
          then ((True, UnmutedNow sid),
                trigger_thinking env
                  (send_text (set_muted w ((get_muted w)(sid := None))) sid UnmuteStart))
          else ((True, WasNotMuted sid), w))"

text \<open>
  An incoming message: its stream, its text, the users it mentions (\<open>None\<close> when the
  message object has no such attribute) and its chat stream object.
\<close>

record message =
  msg_stream_id :: stream_id
  msg_content :: pystr
  msg_mentioned_user_ids :: "pystr list option"
  msg_chat_stream :: "stream_id option"

text \<open>\<open>HandlerReturn(intercepted=...)\<close> is its flag.\<close>

definition ll_AtUnmuteHandler_handle ::
  "config \<Rightarrow> host \<Rightarrow> time \<Rightarrow> message option \<Rightarrow> world \<Rightarrow> bool \<times> world" where
  "ll_AtUnmuteHandler_handle cfg h now msg w =
     (case msg of
        None \<Rightarrow> (False, w)
      | Some m \<Rightarrow>
          if \<not> cfg_plugin_enabled cfg then (False, w)
          else if \<not> cfg_mute_enabled cfg then (False, w)
          else if \<not> cfg_at_unmute_enabled cfg then (False, w)
          else
            (case get_muted w (msg_stream_id m) of
               None \<Rightarrow> (False, w)
             | Some mute_until \<Rightarrow>
                 if now < mute_until then
                   (case bot_account h of
                      None \<Rightarrow> (False, w)
                    | Some bot_id \<Rightarrow>
                        (case msg_mentioned_user_ids m of
                           None \<Rightarrow> (False, w)
                         | Some ids \<Rightarrow>
                             if bot_id \<in> set ids
                             then (False,
                                   trigger_thinking (reply_generation h)
                                     (send_text
                                        (set_muted w ((get_muted w)(msg_stream_id m := None)))
                                        (msg_stream_id m) AtUnmute))
                             else (False, w)))
                 else (False, w)))"

definition ll_MuteHandler_handle ::
  "config \<Rightarrow> time \<Rightarrow> message option \<Rightarrow> world \<Rightarrow> bool \<times> world" where
  "ll_MuteHandler_handle cfg now msg w =
     (case msg of
        None \<Rightarrow> (False, w)
      | Some m \<Rightarrow>
          if \<not> cfg_plugin_enabled cfg then (False, w)
          else if \<not> cfg_mute_enabled cfg then (False, w)
          else
            (case get_muted w (msg_stream_id m) of
               None \<Rightarrow> (False, w)
             | Some mute_until \<Rightarrow>
                 if now < mute_until then (True, w)
                 else (False, set_muted w ((get_muted w)(msg_stream_id m := None)))))"

text \<open>
  \<open>AliasHandler.handle\<close>: the first mute alias that the stripped text starts with runs the
  mute command on the rest of the text; otherwise the first matching unmute alias runs
  the unmute command. The handler never intercepts. An exception of the command leaves
  the handler.
\<close>

definition alias_args :: "unicode \<Rightarrow> pystr \<Rightarrow> pystr \<Rightarrow> pystr option" where
  "alias_args U message_content alias =
     (let param_str = py_strip U (drop (length alias) message_content)
      in if param_str \<noteq> [] then Some param_str else None)"

definition ll_AliasHandler_handle ::
  "unicode \<Rightarrow> config \<Rightarrow> reply_env \<Rightarrow> time \<Rightarrow> message option \<Rightarrow> world
     \<Rightarrow> error + (bool \<times> world)" where
  "ll_AliasHandler_handle U cfg env now msg w =
     (case msg of
        None \<Rightarrow> Inr (False, w)
      | Some m \<Rightarrow>
          if \<not> cfg_plugin_enabled cfg then Inr (False, w)
          else if \<not> cfg_mute_enabled cfg then Inr (False, w)
          else
            (let message_content = py_strip U (msg_content m) in
             case find (startswith message_content) (cfg_mute_aliases cfg) of
               Some alias \<Rightarrow>
                 (case ll_MuteMaiCommand_execute U cfg now (msg_chat_stream m)
                         (alias_args U message_content alias) w of
                    Inl e \<Rightarrow> Inl e
                  | Inr (result, w') \<Rightarrow> Inr (False, w'))
             | None \<Rightarrow>
                 (case find (startswith message_content) (cfg_unmute_aliases cfg) of
                    Some alias \<Rightarrow>
                      Inr (False,
                           snd (ll_UnmuteMaiCommand_execute cfg env (msg_chat_stream m) w))
                  | None \<Rightarrow> Inr (False, w))))"

text \<open>
  \<open>on_plugin_loaded\<close>: a non-empty stored map is replaced by the empty one; an empty or
  absent one is left as it is.
\<close>

definition ll_on_plugin_loaded :: "world \<Rightarrow> world" where
  "ll_on_plugin_loaded w = (if get_muted w \<noteq> Map.empty then set_muted w Map.empty else w)"

section \<open>The chatter-based plugin (plugin.py)\<close>

text \<open>
  The commands return \<open>(success, message, flag)\<close>. The mute command takes no duration
  argument: it uses the configured default.
\<close>

type_synonym plus_result = "bool \<times> outcome \<times> bool"


definition UnmuteMaiCommand_execute ::
  "config \<Rightarrow> reply_env \<Rightarrow> stream_id option \<Rightarrow> world \<Rightarrow> plus_result \<times> world" where
  "UnmuteMaiCommand_execute cfg env chat_stream w =
     (case chat_stream of
        None \<Rightarrow> ((False, NoChatStreamInfo, False), w)
      | Some sid \<Rightarrow>
          if \<not> cfg_plugin_enabled cfg
          then ((False, PluginIsDisabled, False), send_text w sid PluginDisabled)
          else if \<not> cfg_mute_enabled cfg
          then ((False, MuteIsDisabled, False), send_text w sid MuteDisabled)
          else if sid \<in> dom (get_muted w)
          then ((True, UnmutedNow sid, True),
                trigger_thinking env
                  (send_text (set_muted w ((get_muted w)(sid := None))) sid UnmuteStart))
          else ((False, WasNotMuted sid, False), send_text w sid NotMutedNow))"

text \<open>
  The chatter instance. \<open>chatter_init\<close> is \<open>MuteControlChatter.__init__\<close>.
\<close>

record chatter =
  chatter_stream_id :: stream_id
  mute_aliases :: "pystr list"
  unmute_aliases :: "pystr list"
  plugin_enabled_val :: bool
  mute_enabled_val :: bool
  at_unmute_enabled_val :: bool
  default_mute_minutes_val :: int

definition chatter_init :: "stream_id \<Rightarrow> chatter" where
  "chatter_init sid =
     \<lparr> chatter_stream_id = sid, mute_aliases = [], unmute_aliases = [],
       plugin_enabled_val = True, mute_enabled_val = True, at_unmute_enabled_val = True,
       default_mute_minutes_val = 10 \<rparr>"

text \<open>
  A message segment has a type and data: a string, a dictionary (given by the string of
  its \<open>qq\<close> entry, when it has one), a list of segments, or something else.
\<close>

datatype seg = Seg pystr seg_data
and seg_data = DataStr pystr | DataDict "pystr option" | DataList "seg list" | DataOther

text \<open>\<open>at_data.split(":", 1)\<close>: the part after the first colon, or the whole string.\<close>

definition at_id :: "pystr \<Rightarrow> pystr" where
  "at_id at_data =
     (if 58 \<in> set at_data then tl (dropWhile (\<lambda>c. c \<noteq> 58) at_data) else at_data)"

fun extract_at_ids :: "seg \<Rightarrow> pystr list"
and extract_at_ids_list :: "seg list \<Rightarrow> pystr list" where
  "extract_at_ids (Seg ty d) =
     (if ty = str ''at'' then
        (case d of
           DataStr at_data \<Rightarrow> [at_id at_data]
         | DataDict (Some qq) \<Rightarrow> [qq]
         | _ \<Rightarrow> [])
      else if ty = str ''seglist'' then
        (case d of DataList subs \<Rightarrow> extract_at_ids_list subs | _ \<Rightarrow> [])
      else [])"
| "extract_at_ids_list [] = []"
| "extract_at_ids_list (sub_seg # rest) = extract_at_ids sub_seg @ extract_at_ids_list rest"

text \<open>
  The last message of the stream context, with the attributes the chatter probes
  (\<open>None\<close> when the attribute is absent or \<open>None\<close>); \<open>segments\<close> holds type and text of
  each raw segment.
\<close>

record last_message =
  processed_plain_text :: "pystr option"
  plain_text :: "pystr option"
  text_attr :: "pystr option"
  content_attr :: "pystr option"
  raw_content :: "pystr option"
  segments :: "(pystr \<times> pystr) list"
  message_segment :: "seg option"

definition truthy :: "pystr option \<Rightarrow> bool" where
  "truthy x = (case x of None \<Rightarrow> False | Some s \<Rightarrow> s \<noteq> [])"

definition message_text :: "last_message \<Rightarrow> pystr" where
  "message_text m =
     (case find truthy [processed_plain_text m, plain_text m, text_attr m, content_attr m,
                        raw_content m] of
        Some (Some s) \<Rightarrow> s
      | _ \<Rightarrow> concat (map snd (filter (\<lambda>sg. fst sg = str ''text'') (segments m))))"

text \<open>
  Loading the configuration into the instance. \<open>cfg\<close> is what \<open>self.get_config\<close> reads,
  \<open>None\<close> when the chatter has no such method; then the defaults apply, or the
  configuration cached in the storage. \<open>at_unmute_enabled_val\<close> is assigned in neither
  branch.
\<close>

definition apply_config :: "config \<Rightarrow> chatter \<Rightarrow> chatter" where
  "apply_config cfg c =
     c\<lparr> plugin_enabled_val := cfg_plugin_enabled cfg,
        mute_enabled_val := cfg_mute_enabled cfg,
        mute_aliases := cfg_mute_aliases cfg,
        unmute_aliases := cfg_unmute_aliases cfg,
        default_mute_minutes_val := cfg_default_mute_minutes cfg \<rparr>"

definition chatter_load_config :: "config option \<Rightarrow> world \<Rightarrow> chatter \<Rightarrow> chatter" where
  "chatter_load_config cfg w c =
     (case cfg of
        Some loaded \<Rightarrow> apply_config loaded c
      | None \<Rightarrow>
          (case chatter_config w of
             Some cached \<Rightarrow> apply_config cached c
           | None \<Rightarrow> apply_config default_config c))"

definition execute_mute_logic_direct_from_chatter ::
  "time \<Rightarrow> chatter \<Rightarrow> stream_id \<Rightarrow> world \<Rightarrow> error + (bool \<times> world)" where
  "execute_mute_logic_direct_from_chatter now c sid w =
     (if \<not> plugin_enabled_val c then Inr (False, send_text w sid PluginDisabled)
      else if \<not> mute_enabled_val c then Inr (False, send_text w sid MuteDisabled)
      else
        (case unmute_time_after now (default_mute_minutes_val c) of
           Inl e \<Rightarrow> Inl e
         | Inr unmute_time \<Rightarrow>
             Inr (True,
                  send_text (set_muted w ((get_muted w)(sid \<mapsto> unmute_time)))
                    sid (MuteStart unmute_time))))"

definition execute_unmute_logic_direct_from_chatter ::
  "reply_env \<Rightarrow> chatter \<Rightarrow> stream_id \<Rightarrow> world \<Rightarrow> bool \<times> world" where
  "execute_unmute_logic_direct_from_chatter env c sid w =
     (if \<not> plugin_enabled_val c then (False, send_text w sid PluginDisabled)
      else if \<not> mute_enabled_val c then (False, send_text w sid MuteDisabled)
      else if sid \<in> dom (get_muted w)
      then (True,
            trigger_thinking env
              (send_text (set_muted w ((get_muted w)(sid := None))) sid UnmuteStart))
      else (False, send_text w sid NotMutedNow))"

datatype chatter_result =
    NoLastMessage
  | NoTextContent
  | BotIdUnavailable
  | Intercepted
  | NotBlocked

text \<open>
  Step 2 of \<open>MuteControlChatter.execute\<close>, the check for a mention of the bot. It
  returns \<open>Some BotIdUnavailable\<close> where \<open>execute\<close> returns early.
\<close>

definition chatter_at_unmute ::
  "host \<Rightarrow> time \<Rightarrow> last_message \<Rightarrow> chatter \<Rightarrow> world \<Rightarrow> chatter_result option \<times> world" where
  "chatter_at_unmute h now m c w =
     (if \<not> at_unmute_enabled_val c then (None, w)
      else
        (let mentioned_user_ids =
               (case message_segment m of None \<Rightarrow> [] | Some sg \<Rightarrow> extract_at_ids sg)
         in if mentioned_user_ids = [] then (None, w)
            else
              (case bot_account h of
                 None \<Rightarrow> (Some BotIdUnavailable, w)
               | Some bot_id \<Rightarrow>
                   if bot_id \<in> set mentioned_user_ids then
                     (case get_muted w (chatter_stream_id c) of
                        None \<Rightarrow> (None, w)
                      | Some mute_until \<Rightarrow>
                          if now < mute_until
                          then (None,
                                trigger_thinking (reply_generation h)
                                  (send_text
                                     (set_muted w
                                        ((get_muted w)(chatter_stream_id c := None)))
                                     (chatter_stream_id c) AtUnmute))
                          else (None, w))
                   else (None, w))))"

text \<open>Step 3, the mute-status check (lines 544 to 588).\<close>

definition chatter_mute_check :: "time \<Rightarrow> chatter \<Rightarrow> world \<Rightarrow> chatter_result \<times> world" where
  "chatter_mute_check now c w =
     (case get_muted w (chatter_stream_id c) of
        None \<Rightarrow> (NotBlocked, w)
      | Some mute_until \<Rightarrow>
          if now < mute_until then (Intercepted, w)
          else (NotBlocked, set_muted w ((get_muted w)(chatter_stream_id c := None))))"

text \<open>
  \<open>MuteControlChatter.execute\<close>. The result is the returned dictionary or the exception
  that leaves the method, with the instance and the state as they are at that point.
\<close>

definition MuteControlChatter_execute ::
  "unicode \<Rightarrow> config option \<Rightarrow> host \<Rightarrow> time \<Rightarrow> last_message option \<Rightarrow> chatter \<Rightarrow> world
     \<Rightarrow> (error + chatter_result) \<times> chatter \<times> world" where
  "MuteControlChatter_execute U cfg h now last_msg c w =
     (case last_msg of
        None \<Rightarrow> (Inr NoLastMessage, c, w)
      | Some m \<Rightarrow>
          (let message_content = message_text m in
           if message_content = [] then (Inr NoTextContent, c, w)
           else
             (let c1 = chatter_load_config cfg w c;
                  sid = chatter_stream_id c1;
                  muted =
                    (case find (startswith (py_strip U message_content)) (mute_aliases c1) of
                       None \<Rightarrow> Inr w
                     | Some alias \<Rightarrow>
                         (case execute_mute_logic_direct_from_chatter now c1 sid w of
                            Inl e \<Rightarrow> Inl e
                          | Inr (success, w') \<Rightarrow> Inr w'))
              in case muted of
                   Inl e \<Rightarrow> (Inl e, c1, w)
                 | Inr w1 \<Rightarrow>
                     (let w2 =
                            (case find (startswith message_content) (unmute_aliases c1) of
                               None \<Rightarrow> w1
                             | Some alias \<Rightarrow>
                                 snd (execute_unmute_logic_direct_from_chatter
                                        (reply_generation h) c1 sid w1))
                      in case chatter_at_unmute h now m c1 w2 of
                           (Some early, w3) \<Rightarrow> (Inr early, c1, w3)
                         | (None, w3) \<Rightarrow>
                             (case chatter_mute_check now c1 w3 of
                                (r, w4) \<Rightarrow> (Inr r, c1, w4))))))"

text \<open>
  \<open>on_plugin_loaded\<close> clears a non-empty stored map and caches the loaded configuration
  for the chatter.
\<close>

definition on_plugin_loaded :: "config \<Rightarrow> world \<Rightarrow> world" where
  "on_plugin_loaded cfg w =
     (let w' = (if get_muted w \<noteq> Map.empty then set_muted w Map.empty else w)
      in w'\<lparr>chatter_config := Some cfg\<rparr>)"

section \<open>The character database, sample states and the meaning of the patterns\<close>



text \<open>A storage that nothing was written to, and no message sent yet.\<close>

definition fresh_world :: world where
  "fresh_world = \<lparr> muted_streams = None, chatter_config = None, outbox = [], thinking = [] \<rparr>"

definition chat1 :: stream_id where
  "chat1 = str ''chat1''"


definition plain_message :: "stream_id \<Rightarrow> message" where
  "plain_message sid =
     \<lparr> msg_stream_id = sid, msg_content = str ''hello'', msg_mentioned_user_ids = Some [],
       msg_chat_stream = Some sid \<rparr>"

text \<open>The state after a first mute of \<open>sid\<close> until \<open>t\<close>.\<close>

definition muted_until :: "stream_id \<Rightarrow> time \<Rightarrow> world" where
  "muted_until sid t =
     send_text (set_muted fresh_world ((get_muted fresh_world)(sid \<mapsto> t))) sid (MuteStart t)"

text \<open>
  A bot account, a host that knows it, and a message that mentions the bot: for the
  handler-based plugin by its list of mentioned users, for the chatter by an \<open>at\<close>
  segment.
\<close>

definition bot_id :: pystr where
  "bot_id = str ''10001''"

definition bot_host :: host where
  "bot_host = \<lparr> bot_account = Some bot_id, reply_generation = NoReplyer \<rparr>"

definition mention_message :: "stream_id \<Rightarrow> message" where
  "mention_message sid =
     \<lparr> msg_stream_id = sid, msg_content = str ''@bot hi'',
       msg_mentioned_user_ids = Some [bot_id], msg_chat_stream = Some sid \<rparr>"

definition at_message :: last_message where
  "at_message =
     \<lparr> processed_plain_text = Some (str ''@bot hi''), plain_text = None, text_attr = None,
       content_attr = None, raw_content = None, segments = [],
       message_segment =
         Some (Seg (str ''seglist'')
                 (DataList [Seg (str ''at'') (DataStr (str ''bot:10001'')),
                            Seg (str ''text'') (DataStr (str '' hi''))])) \<rparr>"

definition at_unmute_off :: config where
  "at_unmute_off = default_config\<lparr>cfg_at_unmute_enabled := False\<rparr>"


section \<open>The matcher and the pattern\<close>




lemma digits_then_Cons:
  "digits_then U us acc (c # cs) =
     (if py_isdigit U c \<and> digits_then U us (acc @ [c]) cs \<noteq> None
      then digits_then U us (acc @ [c]) cs
      else if spaces_then U us (c # cs) then Some acc else None)"
  by (cases "digits_then U us (acc @ [c]) cs") simp_all

lemma digits_then_Some:
  "digits_then U us acc r = Some g \<Longrightarrow>
     \<exists>ds rest. g = acc @ ds \<and> r = ds @ rest \<and> list_all (py_isdigit U) ds \<and>
               spaces_then U us rest"
proof (induction r arbitrary: acc)
  case Nil
  from Nil have sp: "spaces_then U us []" and g: "g = acc"
    by (simp_all split: if_splits)
  show ?case
    using sp g by (intro exI [of _ "[]"]) simp
next
  case (Cons c cs)
  show ?case
  proof (cases "py_isdigit U c \<and> digits_then U us (acc @ [c]) cs \<noteq> None")
    case True
    with Cons.prems have "digits_then U us (acc @ [c]) cs = Some g"
      by (simp add: digits_then_Cons del: digits_then.simps)
    from Cons.IH [OF this] obtain ds rest where
      g: "g = (acc @ [c]) @ ds" and cs: "cs = ds @ rest" and ds: "list_all (py_isdigit U) ds"
      and sp: "spaces_then U us rest"
      by (elim exE conjE)
    show ?thesis
      using g cs ds sp True by (intro exI [of _ "c # ds"] exI [of _ rest]) simp
  next
    case False
    then have "digits_then U us acc (c # cs) =
        (if spaces_then U us (c # cs) then Some acc else None)"
      by (subst digits_then_Cons) (auto simp del: digits_then.simps spaces_then.simps)
    with Cons.prems have r: "(if spaces_then U us (c # cs) then Some acc else None) = Some g"
      by (simp del: digits_then.simps spaces_then.simps)
    then have g: "g = acc" and sp: "spaces_then U us (c # cs)"
      by (simp_all del: spaces_then.simps split: if_splits)
    show ?thesis
      using g sp by (intro exI [of _ "[]"] exI [of _ "c # cs"]) simp
  qed
qed





text \<open>The group that a match returns is a non-empty string of digits.\<close>

lemma match_at_group:
  assumes "match_at U us s = Some g"
  shows "g \<noteq> [] \<and> list_all (py_isdigit U) g"
proof -
  from assms obtain c cs where "py_isdigit U c" and g: "digits_then U us [c] cs = Some g"
    by (auto simp: match_at_def split: list.splits if_splits)
  with digits_then_Some [OF g] show ?thesis by auto
qed

lemma re_search_group:
  "re_search U us s = Some g \<Longrightarrow> g \<noteq> [] \<and> list_all (py_isdigit U) g"
proof (induction s)
  case Nil
  then show ?case by (simp add: match_at_def)
next
  case (Cons c cs)
  then show ?case
    by (cases "match_at U us (c # cs)") (auto dest: match_at_group)
qed

section \<open>Properties of the duration parser\<close>


























section \<open>Properties of the state operations\<close>

lemma get_muted_set_muted [simp]: "get_muted (set_muted w m) = m"
  by (simp add: get_muted_def set_muted_def)

lemma get_muted_send_text [simp]: "get_muted (send_text w sid n) = get_muted w"
  by (simp add: get_muted_def send_text_def)

lemma get_muted_trigger_thinking [simp]: "get_muted (trigger_thinking env w) = get_muted w"
  by (simp add: get_muted_def trigger_thinking_def split: sum.split)

lemma get_muted_fresh_world [simp]: "get_muted fresh_world = Map.empty"
  by (simp add: get_muted_def fresh_world_def)

lemma outbox_set_muted [simp]: "outbox (set_muted w m) = outbox w"
  by (simp add: set_muted_def)

lemma outbox_send_text [simp]: "outbox (send_text w sid n) = outbox w @ [(sid, n)]"
  by (simp add: send_text_def)

lemma outbox_trigger_thinking [simp]: "outbox (trigger_thinking env w) = outbox w"
  by (simp add: trigger_thinking_def split: sum.split)



lemma unmute_time_after_ok:
  "- 1440 * max_delta_days \<le> d \<Longrightarrow> d < 1440 * (max_delta_days + 1) \<Longrightarrow>
   datetime_min \<le> now + 60 * of_int d \<Longrightarrow> now + 60 * of_int d < datetime_end \<Longrightarrow>
   unmute_time_after now d = Inr (now + 60 * of_int d)"
  by (auto simp: unmute_time_after_def timedelta_minutes_def datetime_add_def max_delta_days_def)







lemma ll_check_absent:
  assumes "get_muted w (msg_stream_id m) = None"
  shows "ll_MuteHandler_handle cfg now (Some m) w = (False, w)"
  using assms by (simp add: ll_MuteHandler_handle_def)



lemma chatter_check_absent:
  assumes "get_muted w (chatter_stream_id c) = None"
  shows "chatter_mute_check now c w = (NotBlocked, w)"
  using assms by (simp add: chatter_mute_check_def)




section \<open>Muting and the mute-status check\<close>













lemma default_config_on:
  "cfg_plugin_enabled default_config" "cfg_mute_enabled default_config"
  "cfg_at_unmute_enabled default_config" "cfg_default_mute_minutes default_config = 10"
  by (simp_all add: default_config_def)



lemma get_muted_muted_until [simp]: "get_muted (muted_until sid t) = [sid \<mapsto> t]"
  by (simp add: muted_until_def)


section \<open>Repeated mutes\<close>





section \<open>Refused mute requests\<close>

lemma muted_streams_send_text [simp]: "muted_streams (send_text w sid n) = muted_streams w"
  by (simp add: send_text_def)








section \<open>Unmuting\<close>

lemma thinking_trigger_thinking:
  "thinking (trigger_thinking env w) =
     thinking w @ [case env of
                     HostRaises \<Rightarrow> TriggerError
                   | NoStreamObject \<Rightarrow> StreamObjectMissing
                   | NoReplyer \<Rightarrow> ReplyerMissing
                   | Generated success \<Rightarrow> if success then ThinkingAttempted else ThinkingFailed]"
  by (cases env) (simp_all add: trigger_thinking_def trigger_body_def)

lemma ll_unmute_present:
  assumes "cfg_plugin_enabled cfg" and "cfg_mute_enabled cfg" and "S \<in> dom (get_muted w)"
  shows "ll_UnmuteMaiCommand_execute cfg env (Some S) w =
           ((True, UnmutedNow S),
            trigger_thinking env
              (send_text (set_muted w ((get_muted w)(S := None))) S UnmuteStart))"
  using assms by (simp add: ll_UnmuteMaiCommand_execute_def)

lemma ll_unmute_absent:
  assumes "cfg_plugin_enabled cfg" and "cfg_mute_enabled cfg" and "S \<notin> dom (get_muted w)"
  shows "ll_UnmuteMaiCommand_execute cfg env (Some S) w = ((True, WasNotMuted S), w)"
  using assms by (simp add: ll_UnmuteMaiCommand_execute_def)

lemma unmute_present:
  assumes "cfg_plugin_enabled cfg" and "cfg_mute_enabled cfg" and "S \<in> dom (get_muted w)"
  shows "UnmuteMaiCommand_execute cfg env (Some S) w =
           ((True, UnmutedNow S, True),
            trigger_thinking env
              (send_text (set_muted w ((get_muted w)(S := None))) S UnmuteStart))"
  using assms by (simp add: UnmuteMaiCommand_execute_def)

lemma unmute_absent:
  assumes "cfg_plugin_enabled cfg" and "cfg_mute_enabled cfg" and "S \<notin> dom (get_muted w)"
  shows "UnmuteMaiCommand_execute cfg env (Some S) w =
           ((False, WasNotMuted S, False), send_text w S NotMutedNow)"
  using assms by (simp add: UnmuteMaiCommand_execute_def)

lemma chatter_unmute_present:
  assumes "plugin_enabled_val c" and "mute_enabled_val c" and "S \<in> dom (get_muted w)"
  shows "execute_unmute_logic_direct_from_chatter env c S w =
           (True,
            trigger_thinking env
              (send_text (set_muted w ((get_muted w)(S := None))) S UnmuteStart))"
  using assms by (simp add: execute_unmute_logic_direct_from_chatter_def)

lemma chatter_unmute_absent:
  assumes "plugin_enabled_val c" and "mute_enabled_val c" and "S \<notin> dom (get_muted w)"
  shows "execute_unmute_logic_direct_from_chatter env c S w =
           (False, send_text w S NotMutedNow)"
  using assms by (simp add: execute_unmute_logic_direct_from_chatter_def)

text \<open>
  C4, as the claim states it, fails on the handler-based command: for a stream with no
  record it returns success \<open>True\<close> and sends nothing.
\<close>

theorem ll_unmute_absent_reports_success:
  "chat1 \<notin> dom (get_muted fresh_world) \<and>
   fst (fst (ll_UnmuteMaiCommand_execute default_config NoReplyer (Some chat1) fresh_world))
     \<noteq> False \<and>
   outbox (snd (ll_UnmuteMaiCommand_execute default_config NoReplyer (Some chat1) fresh_world))
     = []"
  by (simp add: ll_UnmuteMaiCommand_execute_def default_config_on fresh_world_def
      get_muted_def)

text \<open>
  C4, amended: with the plugin and mute toggles on, unmuting a stream that has a record
  removes the record and reports success in both plugins, and a later check of the
  stream reports it as not muted. Unmuting a stream with no record leaves the stored map
  unchanged; the chatter-based command and the chatter's alias path then report failure
  and send the distinct message that the bot is not muted, while the handler-based
  command reports success with the return message that the stream was not muted and
  sends nothing.
\<close>

theorem unmute_outcomes:
  "(cfg_plugin_enabled cfg \<and> cfg_mute_enabled cfg \<and> S \<notin> dom (get_muted w) \<longrightarrow>
      UnmuteMaiCommand_execute cfg env (Some S) w =
        ((False, WasNotMuted S, False), send_text w S NotMutedNow) \<and>
      muted_streams (send_text w S NotMutedNow) = muted_streams w \<and>
      ll_UnmuteMaiCommand_execute cfg env (Some S) w = ((True, WasNotMuted S), w)) \<and>
   (plugin_enabled_val c \<and> mute_enabled_val c \<and> S \<notin> dom (get_muted w) \<longrightarrow>
      execute_unmute_logic_direct_from_chatter env c S w = (False, send_text w S NotMutedNow)) \<and>
   (cfg_plugin_enabled cfg \<and> cfg_mute_enabled cfg \<and> S \<in> dom (get_muted w) \<and>
    msg_stream_id m = S \<and> chatter_stream_id c = S \<longrightarrow>
      fst (UnmuteMaiCommand_execute cfg env (Some S) w) = (True, UnmutedNow S, True) \<and>
      get_muted (snd (UnmuteMaiCommand_execute cfg env (Some S) w)) =
        (get_muted w)(S := None) \<and>
      outbox (snd (UnmuteMaiCommand_execute cfg env (Some S) w)) =
        outbox w @ [(S, UnmuteStart)] \<and>
      fst (chatter_mute_check T' c (snd (UnmuteMaiCommand_execute cfg env (Some S) w))) =
        NotBlocked \<and>
      fst (ll_UnmuteMaiCommand_execute cfg env (Some S) w) = (True, UnmutedNow S) \<and>
      get_muted (snd (ll_UnmuteMaiCommand_execute cfg env (Some S) w)) =
        (get_muted w)(S := None) \<and>
      outbox (snd (ll_UnmuteMaiCommand_execute cfg env (Some S) w)) =
        outbox w @ [(S, UnmuteStart)] \<and>
      fst (ll_MuteHandler_handle cfg T' (Some m)
             (snd (ll_UnmuteMaiCommand_execute cfg env (Some S) w))) = False) \<and>
   (plugin_enabled_val c \<and> mute_enabled_val c \<and> S \<in> dom (get_muted w) \<longrightarrow>
      fst (execute_unmute_logic_direct_from_chatter env c S w) = True \<and>
      get_muted (snd (execute_unmute_logic_direct_from_chatter env c S w)) =
        (get_muted w)(S := None))"
proof (intro conjI impI)
  assume a: "cfg_plugin_enabled cfg \<and> cfg_mute_enabled cfg \<and> S \<notin> dom (get_muted w)"
  then show "UnmuteMaiCommand_execute cfg env (Some S) w =
        ((False, WasNotMuted S, False), send_text w S NotMutedNow)"
    by (simp add: unmute_absent)
  show "muted_streams (send_text w S NotMutedNow) = muted_streams w" by simp
  from a show "ll_UnmuteMaiCommand_execute cfg env (Some S) w = ((True, WasNotMuted S), w)"
    by (simp add: ll_unmute_absent)
next
  assume "plugin_enabled_val c \<and> mute_enabled_val c \<and> S \<notin> dom (get_muted w)"
  then show "execute_unmute_logic_direct_from_chatter env c S w =
               (False, send_text w S NotMutedNow)"
    by (simp add: chatter_unmute_absent)
next
  assume a: "cfg_plugin_enabled cfg \<and> cfg_mute_enabled cfg \<and> S \<in> dom (get_muted w) \<and>
             msg_stream_id m = S \<and> chatter_stream_id c = S"
  then have r: "UnmuteMaiCommand_execute cfg env (Some S) w =
           ((True, UnmutedNow S, True),
            trigger_thinking env
              (send_text (set_muted w ((get_muted w)(S := None))) S UnmuteStart))"
    and l: "ll_UnmuteMaiCommand_execute cfg env (Some S) w =
           ((True, UnmutedNow S),
            trigger_thinking env
              (send_text (set_muted w ((get_muted w)(S := None))) S UnmuteStart))"
    by (simp_all add: unmute_present ll_unmute_present)
  show "fst (UnmuteMaiCommand_execute cfg env (Some S) w) = (True, UnmutedNow S, True)"
    by (simp add: r)
  show "get_muted (snd (UnmuteMaiCommand_execute cfg env (Some S) w)) =
          (get_muted w)(S := None)"
    by (simp add: r)
  show "outbox (snd (UnmuteMaiCommand_execute cfg env (Some S) w)) =
          outbox w @ [(S, UnmuteStart)]"
    by (simp add: r)
  show "fst (chatter_mute_check T' c (snd (UnmuteMaiCommand_execute cfg env (Some S) w))) =
          NotBlocked"
    using a by (simp add: r chatter_check_absent)
  show "fst (ll_UnmuteMaiCommand_execute cfg env (Some S) w) = (True, UnmutedNow S)"
    by (simp add: l)
  show "get_muted (snd (ll_UnmuteMaiCommand_execute cfg env (Some S) w)) =
          (get_muted w)(S := None)"
    by (simp add: l)
  show "outbox (snd (ll_UnmuteMaiCommand_execute cfg env (Some S) w)) =
          outbox w @ [(S, UnmuteStart)]"
    by (simp add: l)
  show "fst (ll_MuteHandler_handle cfg T' (Some m)
               (snd (ll_UnmuteMaiCommand_execute cfg env (Some S) w))) = False"
    using a by (simp add: l ll_check_absent)
next
  assume a: "plugin_enabled_val c \<and> mute_enabled_val c \<and> S \<in> dom (get_muted w)"
  then show "fst (execute_unmute_logic_direct_from_chatter env c S w) = True"
    by (simp add: chatter_unmute_present)
  from a show "get_muted (snd (execute_unmute_logic_direct_from_chatter env c S w)) =
                 (get_muted w)(S := None)"
    by (simp add: chatter_unmute_present)
qed

lemma chat1_muted: "chat1 \<in> dom (get_muted (muted_until chat1 600))"
  by simp

theorem unmute_outcomes_witness:
  "cfg_plugin_enabled default_config \<and> cfg_mute_enabled default_config \<and>
   chat1 \<notin> dom (get_muted fresh_world) \<and>
   UnmuteMaiCommand_execute default_config NoReplyer (Some chat1) fresh_world =
     ((False, WasNotMuted chat1, False), send_text fresh_world chat1 NotMutedNow) \<and>
   ll_UnmuteMaiCommand_execute default_config NoReplyer (Some chat1) fresh_world =
     ((True, WasNotMuted chat1), fresh_world) \<and>
   chat1 \<in> dom (get_muted (muted_until chat1 600)) \<and>
   fst (UnmuteMaiCommand_execute default_config NoReplyer (Some chat1) (muted_until chat1 600))
     = (True, UnmutedNow chat1, True) \<and>
   get_muted (snd (UnmuteMaiCommand_execute default_config NoReplyer (Some chat1)
     (muted_until chat1 600))) chat1 = None \<and>
   fst (ll_MuteHandler_handle default_config 300 (Some (plain_message chat1))
          (snd (ll_UnmuteMaiCommand_execute default_config NoReplyer (Some chat1)
             (muted_until chat1 600)))) = False"
proof -
  have on: "cfg_plugin_enabled default_config \<and> cfg_mute_enabled default_config"
    by (simp add: default_config_on)
  have absent: "chat1 \<notin> dom (get_muted fresh_world)" by simp
  have m: "msg_stream_id (plain_message chat1) = chat1" by (simp add: plain_message_def)
  have c: "chatter_stream_id (chatter_init chat1) = chat1" by (simp add: chatter_init_def)
  from unmute_outcomes [where cfg = default_config and S = chat1 and w = fresh_world
      and env = NoReplyer] on absent
  have first: "UnmuteMaiCommand_execute default_config NoReplyer (Some chat1) fresh_world =
     ((False, WasNotMuted chat1, False), send_text fresh_world chat1 NotMutedNow) \<and>
   ll_UnmuteMaiCommand_execute default_config NoReplyer (Some chat1) fresh_world =
     ((True, WasNotMuted chat1), fresh_world)"
    by blast
  from unmute_outcomes [where cfg = default_config and S = chat1
      and w = "muted_until chat1 600" and env = NoReplyer and m = "plain_message chat1"
      and c = "chatter_init chat1" and T' = 300] on chat1_muted m c
  have second: "fst (UnmuteMaiCommand_execute default_config NoReplyer (Some chat1)
       (muted_until chat1 600)) = (True, UnmutedNow chat1, True) \<and>
   get_muted (snd (UnmuteMaiCommand_execute default_config NoReplyer (Some chat1)
     (muted_until chat1 600))) = (get_muted (muted_until chat1 600))(chat1 := None) \<and>
   fst (ll_MuteHandler_handle default_config 300 (Some (plain_message chat1))
          (snd (ll_UnmuteMaiCommand_execute default_config NoReplyer (Some chat1)
             (muted_until chat1 600)))) = False"
    by blast
  from first second on absent chat1_muted show ?thesis by simp
qed

section \<open>The reply trigger after an unmute\<close>

text \<open>
  C8: when an unmute succeeds (toggles on, the stream has a record), the result does not
  depend on the reply trigger. Whatever the host's reply generation does, also when it
  raises (\<open>HostRaises\<close>) or has no replyer (\<open>NoReplyer\<close>), the command returns success, the
  record is removed and stays removed, and the confirmation is sent; the exception is
  caught and shows only in the printed line. This holds for the unmute command of both
  plugins and for the chatter's alias path.
\<close>

theorem unmute_independent_of_reply:
  "(cfg_plugin_enabled cfg \<and> cfg_mute_enabled cfg \<and> S \<in> dom (get_muted w) \<longrightarrow>
      (\<forall>env.
         fst (ll_UnmuteMaiCommand_execute cfg env (Some S) w) = (True, UnmutedNow S) \<and>
         get_muted (snd (ll_UnmuteMaiCommand_execute cfg env (Some S) w)) =
           (get_muted w)(S := None) \<and>
         outbox (snd (ll_UnmuteMaiCommand_execute cfg env (Some S) w)) =
           outbox w @ [(S, UnmuteStart)] \<and>
         fst (UnmuteMaiCommand_execute cfg env (Some S) w) = (True, UnmutedNow S, True) \<and>
         get_muted (snd (UnmuteMaiCommand_execute cfg env (Some S) w)) =
           (get_muted w)(S := None) \<and>
         outbox (snd (UnmuteMaiCommand_execute cfg env (Some S) w)) =
           outbox w @ [(S, UnmuteStart)]) \<and>
      trigger_body HostRaises = Inl HostException \<and>
      thinking (snd (ll_UnmuteMaiCommand_execute cfg HostRaises (Some S) w)) =
        thinking w @ [TriggerError] \<and>
      thinking (snd (UnmuteMaiCommand_execute cfg HostRaises (Some S) w)) =
        thinking w @ [TriggerError] \<and>
      thinking (snd (UnmuteMaiCommand_execute cfg NoReplyer (Some S) w)) =
        thinking w @ [ReplyerMissing]) \<and>
   (plugin_enabled_val c \<and> mute_enabled_val c \<and> S \<in> dom (get_muted w) \<longrightarrow>
      (\<forall>env.
         fst (execute_unmute_logic_direct_from_chatter env c S w) = True \<and>
         get_muted (snd (execute_unmute_logic_direct_from_chatter env c S w)) =
           (get_muted w)(S := None) \<and>
         outbox (snd (execute_unmute_logic_direct_from_chatter env c S w)) =
           outbox w @ [(S, UnmuteStart)]))"
proof (intro conjI impI allI)
  fix env
  assume a: "cfg_plugin_enabled cfg \<and> cfg_mute_enabled cfg \<and> S \<in> dom (get_muted w)"
  then have l: "ll_UnmuteMaiCommand_execute cfg env (Some S) w =
           ((True, UnmutedNow S),
            trigger_thinking env
              (send_text (set_muted w ((get_muted w)(S := None))) S UnmuteStart))"
    and r: "UnmuteMaiCommand_execute cfg env (Some S) w =
           ((True, UnmutedNow S, True),
            trigger_thinking env
              (send_text (set_muted w ((get_muted w)(S := None))) S UnmuteStart))"
    by (simp_all add: ll_unmute_present unmute_present)
  show "fst (ll_UnmuteMaiCommand_execute cfg env (Some S) w) = (True, UnmutedNow S)"
    by (simp add: l)
  show "get_muted (snd (ll_UnmuteMaiCommand_execute cfg env (Some S) w)) =
          (get_muted w)(S := None)"
    by (simp add: l)
  show "outbox (snd (ll_UnmuteMaiCommand_execute cfg env (Some S) w)) =
          outbox w @ [(S, UnmuteStart)]"
    by (simp add: l)
  show "fst (UnmuteMaiCommand_execute cfg env (Some S) w) = (True, UnmutedNow S, True)"
    by (simp add: r)
  show "get_muted (snd (UnmuteMaiCommand_execute cfg env (Some S) w)) =
          (get_muted w)(S := None)"
    by (simp add: r)
  show "outbox (snd (UnmuteMaiCommand_execute cfg env (Some S) w)) =
          outbox w @ [(S, UnmuteStart)]"
    by (simp add: r)
next
  show "trigger_body HostRaises = Inl HostException" by (simp add: trigger_body_def)
next
  assume a: "cfg_plugin_enabled cfg \<and> cfg_mute_enabled cfg \<and> S \<in> dom (get_muted w)"
  then show "thinking (snd (ll_UnmuteMaiCommand_execute cfg HostRaises (Some S) w)) =
               thinking w @ [TriggerError]"
    by (simp add: ll_unmute_present thinking_trigger_thinking send_text_def set_muted_def)
  from a show "thinking (snd (UnmuteMaiCommand_execute cfg HostRaises (Some S) w)) =
               thinking w @ [TriggerError]"
    by (simp add: unmute_present thinking_trigger_thinking send_text_def set_muted_def)
  from a show "thinking (snd (UnmuteMaiCommand_execute cfg NoReplyer (Some S) w)) =
               thinking w @ [ReplyerMissing]"
    by (simp add: unmute_present thinking_trigger_thinking send_text_def set_muted_def)
next
  fix env
  assume a: "plugin_enabled_val c \<and> mute_enabled_val c \<and> S \<in> dom (get_muted w)"
  then have r: "execute_unmute_logic_direct_from_chatter env c S w =
           (True,
            trigger_thinking env
              (send_text (set_muted w ((get_muted w)(S := None))) S UnmuteStart))"
    by (simp add: chatter_unmute_present)
  show "fst (execute_unmute_logic_direct_from_chatter env c S w) = True" by (simp add: r)
  show "get_muted (snd (execute_unmute_logic_direct_from_chatter env c S w)) =
          (get_muted w)(S := None)"
    by (simp add: r)
  show "outbox (snd (execute_unmute_logic_direct_from_chatter env c S w)) =
          outbox w @ [(S, UnmuteStart)]"
    by (simp add: r)
qed

theorem unmute_independent_of_reply_witness:
  "cfg_plugin_enabled default_config \<and> cfg_mute_enabled default_config \<and>
   chat1 \<in> dom (get_muted (muted_until chat1 600)) \<and>
   fst (ll_UnmuteMaiCommand_execute default_config HostRaises (Some chat1)
          (muted_until chat1 600)) = (True, UnmutedNow chat1) \<and>
   get_muted (snd (ll_UnmuteMaiCommand_execute default_config HostRaises (Some chat1)
          (muted_until chat1 600))) chat1 = None \<and>
   fst (UnmuteMaiCommand_execute default_config NoReplyer (Some chat1)
          (muted_until chat1 600)) = (True, UnmutedNow chat1, True) \<and>
   thinking (snd (UnmuteMaiCommand_execute default_config HostRaises (Some chat1)
          (muted_until chat1 600))) = thinking (muted_until chat1 600) @ [TriggerError]"
proof -
  have on: "cfg_plugin_enabled default_config \<and> cfg_mute_enabled default_config"
    by (simp add: default_config_on)
  from unmute_independent_of_reply [where cfg = default_config and S = chat1
      and w = "muted_until chat1 600"] on chat1_muted
  have "(\<forall>env.
         fst (ll_UnmuteMaiCommand_execute default_config env (Some chat1)
                (muted_until chat1 600)) = (True, UnmutedNow chat1) \<and>
         get_muted (snd (ll_UnmuteMaiCommand_execute default_config env (Some chat1)
                (muted_until chat1 600))) =
           (get_muted (muted_until chat1 600))(chat1 := None) \<and>
         fst (UnmuteMaiCommand_execute default_config env (Some chat1)
                (muted_until chat1 600)) = (True, UnmutedNow chat1, True)) \<and>
      thinking (snd (UnmuteMaiCommand_execute default_config HostRaises (Some chat1)
                (muted_until chat1 600))) = thinking (muted_until chat1 600) @ [TriggerError]"
    by blast
  with on chat1_muted show ?thesis by simp
qed

section \<open>Plugin load\<close>

lemma ll_on_plugin_loaded_empty: "get_muted (ll_on_plugin_loaded w) = Map.empty"
  by (simp add: ll_on_plugin_loaded_def)

lemma on_plugin_loaded_empty: "get_muted (on_plugin_loaded cfg w) = Map.empty"
  by (simp add: on_plugin_loaded_def Let_def get_muted_def set_muted_def)

text \<open>
  C6: after \<open>on_plugin_loaded\<close> the stored map is empty whatever was stored before, in
  both plugins, so every later check reports every stream as not muted and changes
  nothing.
\<close>

theorem on_plugin_loaded_clears:
  "get_muted (ll_on_plugin_loaded w) = Map.empty \<and>
   get_muted (on_plugin_loaded cfg w) = Map.empty \<and>
   ll_MuteHandler_handle cfg' T (Some m) (ll_on_plugin_loaded w) =
     (False, ll_on_plugin_loaded w) \<and>
   chatter_mute_check T c (on_plugin_loaded cfg w) = (NotBlocked, on_plugin_loaded cfg w)"
  by (simp add: ll_on_plugin_loaded_empty on_plugin_loaded_empty ll_check_absent
      chatter_check_absent)

theorem on_plugin_loaded_clears_witness:
  "get_muted (muted_until chat1 600) chat1 = Some 600 \<and>
   get_muted (ll_on_plugin_loaded (muted_until chat1 600)) chat1 = None \<and>
   get_muted (on_plugin_loaded default_config (muted_until chat1 600)) chat1 = None \<and>
   ll_MuteHandler_handle default_config 300 (Some (plain_message chat1))
     (ll_on_plugin_loaded (muted_until chat1 600)) =
     (False, ll_on_plugin_loaded (muted_until chat1 600)) \<and>
   chatter_mute_check 300 (chatter_init chat1)
     (on_plugin_loaded default_config (muted_until chat1 600)) =
     (NotBlocked, on_plugin_loaded default_config (muted_until chat1 600))"
  using on_plugin_loaded_clears [of "muted_until chat1 600" default_config default_config 300
      "plain_message chat1" "chatter_init chat1"]
  by simp

section \<open>Other streams are left alone\<close>











lemma chatter_stream_id_load [simp]:
  "chatter_stream_id (chatter_load_config cfg w c) = chatter_stream_id c"
  by (simp add: chatter_load_config_def apply_config_def split: option.splits)

lemma at_unmute_enabled_val_load [simp]:
  "at_unmute_enabled_val (chatter_load_config cfg w c) = at_unmute_enabled_val c"
  by (simp add: chatter_load_config_def apply_config_def split: option.splits)




section \<open>A mention of the bot\<close>

lemma ll_at_unmute_removes:
  assumes "cfg_plugin_enabled cfg" and "cfg_mute_enabled cfg" and "cfg_at_unmute_enabled cfg"
    and "get_muted w (msg_stream_id m) = Some e" and "now < e"
    and "bot_account h = Some b" and "msg_mentioned_user_ids m = Some ids" and "b \<in> set ids"
  shows "get_muted (snd (ll_AtUnmuteHandler_handle cfg h now (Some m) w)) =
           (get_muted w)(msg_stream_id m := None)"
  using assms by (simp add: ll_AtUnmuteHandler_handle_def)

lemma ll_at_unmute_disabled:
  assumes "\<not> cfg_at_unmute_enabled cfg"
  shows "ll_AtUnmuteHandler_handle cfg h now msg w = (False, w)"
  using assms by (simp add: ll_AtUnmuteHandler_handle_def split: option.splits)

lemma chatter_at_unmute_removes:
  assumes "at_unmute_enabled_val c"
    and "message_segment m = Some sg" and "b \<in> set (extract_at_ids sg)"
    and "bot_account h = Some b"
    and "get_muted w (chatter_stream_id c) = Some e" and "now < e"
  shows "chatter_at_unmute h now m c w =
           (None,
            trigger_thinking (reply_generation h)
              (send_text (set_muted w ((get_muted w)(chatter_stream_id c := None)))
                 (chatter_stream_id c) AtUnmute))"
proof -
  from assms(3) have "extract_at_ids sg \<noteq> []" by auto
  with assms show ?thesis by (simp add: chatter_at_unmute_def Let_def)
qed

text \<open>
  Whatever configuration is loaded, the chatter's switch for the mention check keeps the
  value \<open>True\<close> that \<open>__init__\<close> gave it.
\<close>

lemma chatter_at_unmute_always_enabled:
  "at_unmute_enabled_val (chatter_load_config cfg w (chatter_init sid))"
  by (simp add: chatter_init_def)

lemma at_message_text: "message_text at_message = str ''@bot hi''"
  by (simp add: message_text_def at_message_def truthy_def str_def)

lemma at_message_ids:
  "extract_at_ids (the (message_segment at_message)) = [bot_id]"
  by (simp add: at_message_def bot_id_def at_id_def str_def)

lemma at_message_no_alias:
  "find (startswith (py_strip U (str ''@bot hi''))) default_mute_aliases = None"
  "find (startswith (str ''@bot hi'')) default_unmute_aliases = None"
  by (simp_all add: default_mute_aliases_def default_unmute_aliases_def startswith_def
      py_strip_def str_def py_isspace_def ascii_whitespace_def)

lemma loaded_off:
  "chatter_load_config (Some at_unmute_off) w (chatter_init chat1) =
     \<lparr> chatter_stream_id = chat1, mute_aliases = default_mute_aliases,
       unmute_aliases = default_unmute_aliases, plugin_enabled_val = True,
       mute_enabled_val = True, at_unmute_enabled_val = True,
       default_mute_minutes_val = 10 \<rparr>"
  by (simp add: chatter_load_config_def apply_config_def chatter_init_def at_unmute_off_def
      default_config_def)

text \<open>
  C5 fails on the chatter. The configuration switches the mention check off
  (\<open>features.at_unmute_enabled\<close> is false), the stream is muted until 600, and a message
  that mentions the bot arrives at 300: the chatter removes the record and announces the
  unmute all the same, because it never loads the switch. On the same input the handler
  of the other plugin leaves the record in place.
\<close>

theorem chatter_ignores_at_unmute_toggle:
  "cfg_at_unmute_enabled at_unmute_off = False \<and>
   get_muted (muted_until chat1 600) chat1 = Some 600 \<and>
   fst (MuteControlChatter_execute ascii_only (Some at_unmute_off) bot_host 300
          (Some at_message) (chatter_init chat1) (muted_until chat1 600)) = Inr NotBlocked \<and>
   get_muted (snd (snd (MuteControlChatter_execute ascii_only (Some at_unmute_off) bot_host 300
          (Some at_message) (chatter_init chat1) (muted_until chat1 600)))) chat1 = None \<and>
   outbox (snd (snd (MuteControlChatter_execute ascii_only (Some at_unmute_off) bot_host 300
          (Some at_message) (chatter_init chat1) (muted_until chat1 600)))) =
     outbox (muted_until chat1 600) @ [(chat1, AtUnmute)] \<and>
   ll_AtUnmuteHandler_handle at_unmute_off bot_host 300 (Some (mention_message chat1))
     (muted_until chat1 600) = (False, muted_until chat1 600)"
proof -
  let ?c1 = "chatter_load_config (Some at_unmute_off) (muted_until chat1 600) (chatter_init chat1)"
  let ?w3 = "trigger_thinking NoReplyer
               (send_text (set_muted (muted_until chat1 600)
                  ((get_muted (muted_until chat1 600))(chat1 := None))) chat1 AtUnmute)"
  have seg: "message_segment at_message = Some (the (message_segment at_message))"
    by (simp add: at_message_def)
  have at: "chatter_at_unmute bot_host 300 at_message ?c1 (muted_until chat1 600) = (None, ?w3)"
    using chatter_at_unmute_removes [of ?c1 at_message "the (message_segment at_message)"
        bot_id bot_host "muted_until chat1 600" 600 300] seg
    by (simp add: at_message_ids bot_host_def loaded_off)
  have ck: "chatter_mute_check 300 ?c1 ?w3 = (NotBlocked, ?w3)"
    by (rule chatter_check_absent) (simp add: loaded_off)
  have has_text: "message_text at_message \<noteq> []" by (simp add: at_message_text str_def)
  have run: "MuteControlChatter_execute ascii_only (Some at_unmute_off) bot_host 300
          (Some at_message) (chatter_init chat1) (muted_until chat1 600) =
          (Inr NotBlocked, ?c1, ?w3)"
    unfolding MuteControlChatter_execute_def
    using has_text at ck
    by (simp add: Let_def at_message_text at_message_no_alias loaded_off)
  have off: "cfg_at_unmute_enabled at_unmute_off = False" by (simp add: at_unmute_off_def)
  have ll: "ll_AtUnmuteHandler_handle at_unmute_off bot_host 300 (Some (mention_message chat1))
     (muted_until chat1 600) = (False, muted_until chat1 600)"
    by (rule ll_at_unmute_disabled) (simp add: off)
  show ?thesis
    by (simp add: run off ll)
qed

section \<open>The chatter as a whole, the alias handler, and overflow\<close>

text \<open>
  For a message with text that starts with no alias and has no segment tree, a run of the
  chatter is its mute-status check. A message without text leaves the chatter before any
  check.
\<close>

lemma chatter_execute_plain:
  assumes "message_text m \<noteq> []"
    and "find (startswith (py_strip U (message_text m)))
           (mute_aliases (chatter_load_config cfg w c)) = None"
    and "find (startswith (message_text m))
           (unmute_aliases (chatter_load_config cfg w c)) = None"
    and "message_segment m = None"
  shows "MuteControlChatter_execute U cfg h T (Some m) c w =
           (Inr (fst (chatter_mute_check T (chatter_load_config cfg w c) w)),
            chatter_load_config cfg w c,
            snd (chatter_mute_check T (chatter_load_config cfg w c) w))"
  using assms
  by (simp add: MuteControlChatter_execute_def Let_def chatter_at_unmute_def
      split: prod.splits)

lemma chatter_execute_no_text:
  assumes "message_text m = []"
  shows "MuteControlChatter_execute U cfg h T (Some m) c w = (Inr NoTextContent, c, w)"
  using assms by (simp add: MuteControlChatter_execute_def)

text \<open>
  A duration beyond the range of \<open>timedelta\<close> or of \<open>datetime\<close> makes the mute command
  raise OverflowError before it writes or sends anything.
\<close>

lemma unmute_time_after_overflow:
  "1440 * (max_delta_days + 1) \<le> d \<Longrightarrow> unmute_time_after now d = Inl OverflowError"
proof -
  assume "1440 * (max_delta_days + 1) \<le> d"
  then have "max_delta_days + 1 \<le> d div 1440" by (simp add: max_delta_days_def)
  then show ?thesis by (simp add: unmute_time_after_def timedelta_minutes_def)
qed

lemma ll_mute_overflow:
  assumes "cfg_plugin_enabled cfg" and "cfg_mute_enabled cfg"
    and "requested_duration U cfg args = Some d" and "1440 * (max_delta_days + 1) \<le> d"
  shows "ll_MuteMaiCommand_execute U cfg now (Some S) args w = Inl OverflowError"
  using assms by (simp add: ll_MuteMaiCommand_execute_def unmute_time_after_overflow)

text \<open>
  With a toggle off the alias handler returns at once: it neither runs a command nor
  sends a message.
\<close>

lemma ll_alias_handler_disabled:
  assumes "\<not> cfg_plugin_enabled cfg \<or> \<not> cfg_mute_enabled cfg"
  shows "ll_AliasHandler_handle U cfg env now msg w = Inr (False, w)"
  using assms by (auto simp: ll_AliasHandler_handle_def split: option.splits)

lemma ll_alias_handler_mute:
  assumes "cfg_plugin_enabled cfg" and "cfg_mute_enabled cfg"
    and "find (startswith (py_strip U (msg_content m))) (cfg_mute_aliases cfg) = Some alias"
  shows "ll_AliasHandler_handle U cfg env now (Some m) w =
           (case ll_MuteMaiCommand_execute U cfg now (msg_chat_stream m)
                   (alias_args U (py_strip U (msg_content m)) alias) w of
              Inl e \<Rightarrow> Inl e
            | Inr (result, w') \<Rightarrow> Inr (False, w'))"
  using assms by (simp add: ll_AliasHandler_handle_def Let_def)

end
